theory Spec2Isabelle
  imports Main "HOL-Library.Word"
begin

section \<open>Data model\<close>

text \<open>
  The node of \<^verbatim>\<open>raft/raft.go\<close>. Log ids and terms are \<^verbatim>\<open>uint64\<close>, peer ids are
  \<^verbatim>\<open>uint32\<close>: words, so that \<open>id + 1\<close>, \<open>reqEntry.Id - 1\<close> and \<open>nextIndex - 1\<close>
  wrap as they do in Go. Counts of votes and replicas are Go \<^verbatim>\<open>int\<close>s that never
  exceed the number of peers plus one; they are integers here.
\<close>

type_synonym u64 = "64 word"
type_synonym u32 = "32 word"
type_synonym bytes = "8 word list"

datatype RaftState = Follower | Candidate | Leader

datatype error = errNotLeader

record Entry =
  Entry_Id :: u64
  Entry_Term :: u64
  Entry_Data :: bytes

record ApplyCommandRequest =
  acq_Data :: bytes

record ApplyCommandResponse =
  acr_Entry :: Entry

record AppendEntriesRequest =
  aeq_Term :: u64
  aeq_LeaderId :: u32
  aeq_PrevLogId :: u64
  aeq_PrevLogTerm :: u64
  aeq_Entries :: "Entry list"
  aeq_LeaderCommitId :: u64

record AppendEntriesResponse =
  aer_Term :: u64
  aer_Success :: bool

record RequestVoteRequest =
  rvq_Term :: u64
  rvq_CandidateId :: u32
  rvq_LastLogId :: u64
  rvq_LastLogTerm :: u64

record RequestVoteResponse =
  rvr_Term :: u64
  rvr_VoteGranted :: bool

text \<open>
  \<^verbatim>\<open>voteResult\<close> and \<^verbatim>\<open>appendEntriesResult\<close> embed the response and add the peer (and
  the request that was sent).
\<close>

record voteResult =
  vote_Term :: u64
  vote_VoteGranted :: bool
  vote_peerId :: u32

record appendEntriesResult =
  result_Term :: u64
  result_Success :: bool
  result_req :: AppendEntriesRequest
  result_peerId :: u32

text \<open>
  \<^verbatim>\<open>Raft\<close> with its embedded \<^verbatim>\<open>raftState\<close>. The two index maps are Go maps, read with
  the zero default. Of the \<^verbatim>\<open>peers\<close> map only the keys matter to the handlers (its
  values are client stubs): \<open>peers\<close> lists them, so \<open>length (peers r)\<close> is
  \<^verbatim>\<open>len(r.peers)\<close>. \<open>applyCh\<close> is the sequence of entries sent on the apply channel so
  far; \<open>lastHeartbeat\<close> is a reading of the clock, which the handlers receive as \<open>now\<close>.
\<close>

record Raft =
  state :: RaftState
  currentTerm :: u64
  votedFor :: u32
  logs :: "Entry list"
  commitIndex :: u64
  lastApplied :: u64
  nextIndex :: "u32 \<rightharpoonup> u64"
  matchIndex :: "u32 \<rightharpoonup> u64"
  self_id :: u32
  peers :: "u32 list"
  lastHeartbeat :: nat
  applyCh :: "Entry list"

definition index_of :: "(u32 \<rightharpoonup> u64) \<Rightarrow> u32 \<Rightarrow> u64" where
  \<comment> \<open>\<^verbatim>\<open>m[peerId]\<close> on a Go map: the zero value for a missing key\<close>
  "index_of m p = (case m p of None \<Rightarrow> 0 | Some v \<Rightarrow> v)"

definition NewRaft :: "u32 \<Rightarrow> u32 list \<Rightarrow> nat \<Rightarrow> Raft" where
  "NewRaft i ps now =
     \<lparr>state = Follower, currentTerm = 0, votedFor = 0, logs = [], commitIndex = 0,
      lastApplied = 0, nextIndex = Map.empty, matchIndex = Map.empty, self_id = i,
      peers = ps, lastHeartbeat = now, applyCh = []\<rparr>"

section \<open>Operations of the Raft state\<close>

text \<open>
  The methods of \<^verbatim>\<open>raftState\<close> are called by \<^verbatim>\<open>raft.go\<close> but defined in a file that is
  not part of the sources at hand. Each is modelled from section 4.2 of the
  specification; the persister they call changes nothing in memory and is left out.
\<close>

definition getLastLog :: "Raft \<Rightarrow> u64 \<times> u64" where
  \<comment> \<open>Modelled from the spec: \<^verbatim>\<open>getLastLog\<close> of the missing state file,
      "\<^verbatim>\<open>getLastLog() -> (id, term)\<close> (returns (0,0) on empty log)".\<close>
  "getLastLog r =
     (if logs r = [] then (0, 0)
      else (Entry_Id (last (logs r)), Entry_Term (last (logs r))))"

definition getLog :: "u64 \<Rightarrow> Raft \<Rightarrow> Entry option" where
  \<comment> \<open>Modelled from the spec: \<^verbatim>\<open>getLog\<close> of the missing state file,
      "\<^verbatim>\<open>getLog(id) -> Entry?\<close>": the entry of the log with this id, if there is one.\<close>
  "getLog i r = find (\<lambda>e. Entry_Id e = i) (logs r)"

definition getLogs :: "u64 \<Rightarrow> Raft \<Rightarrow> Entry list" where
  \<comment> \<open>Modelled from the spec: \<^verbatim>\<open>getLogs\<close> of the missing state file,
      "\<^verbatim>\<open>getLogs(fromId) -> suffix\<close>": the suffix of the log that starts at the first
      entry whose id is at least \<open>fromId\<close>.\<close>
  "getLogs fromId r = dropWhile (\<lambda>e. Entry_Id e < fromId) (logs r)"

definition appendLogs :: "Entry list \<Rightarrow> Raft \<Rightarrow> Raft" where
  \<comment> \<open>Modelled from the spec: \<^verbatim>\<open>appendLogs\<close> of the missing state file,
      "\<^verbatim>\<open>appendLogs(entries)\<close>".\<close>
  "appendLogs es r = r\<lparr>logs := logs r @ es\<rparr>"

definition deleteLogs :: "u64 \<Rightarrow> Raft \<Rightarrow> Raft" where
  \<comment> \<open>Modelled from the spec: \<^verbatim>\<open>deleteLogs\<close> of the missing state file,
      "\<^verbatim>\<open>deleteLogsAfter(id)\<close> (removes all entries with id > \<open>id\<close>)".\<close>
  "deleteLogs i r = r\<lparr>logs := filter (\<lambda>e. Entry_Id e \<le> i) (logs r)\<rparr>"

definition voteFor :: "u32 \<Rightarrow> bool \<Rightarrow> Raft \<Rightarrow> Raft" where
  \<comment> \<open>Modelled from the spec: \<^verbatim>\<open>voteFor\<close> of the missing state file,
      "\<^verbatim>\<open>voteFor(peerId, incrementTerm)\<close> (when \<open>incrementTerm\<close>, bumps term by 1 first)".\<close>
  "voteFor p incrementTerm r =
     (let r1 = (if incrementTerm then r\<lparr>currentTerm := currentTerm r + 1\<rparr> else r)
      in r1\<lparr>votedFor := p\<rparr>)"

definition toFollower :: "u64 \<Rightarrow> Raft \<Rightarrow> Raft" where
  \<comment> \<open>Modelled from the spec: \<^verbatim>\<open>toFollower\<close> of the missing state file,
      "\<^verbatim>\<open>toFollower(term)\<close> (sets role, currentTerm=term, votedFor=0)".\<close>
  "toFollower t r = r\<lparr>state := Follower, currentTerm := t, votedFor := 0\<rparr>"

definition toCandidate :: "Raft \<Rightarrow> Raft" where
  \<comment> \<open>Modelled from the spec: \<^verbatim>\<open>toCandidate\<close> of the missing state file; it sets the role.\<close>
  "toCandidate r = r\<lparr>state := Candidate\<rparr>"

definition toLeader :: "Raft \<Rightarrow> Raft" where
  \<comment> \<open>Modelled from the spec: \<^verbatim>\<open>toLeader\<close> of the missing state file; it sets the role.\<close>
  "toLeader r = r\<lparr>state := Leader\<rparr>"

definition setCommitIndex :: "u64 \<Rightarrow> Raft \<Rightarrow> Raft" where
  \<comment> \<open>Modelled from the spec: \<^verbatim>\<open>setCommitIndex\<close> of the missing state file,
      "\<^verbatim>\<open>setCommitIndex(n)\<close>".\<close>
  "setCommitIndex n r = r\<lparr>commitIndex := n\<rparr>"

definition setNextAndMatchIndex :: "u32 \<Rightarrow> u64 \<Rightarrow> u64 \<Rightarrow> Raft \<Rightarrow> Raft" where
  \<comment> \<open>Modelled from the spec: \<^verbatim>\<open>setNextAndMatchIndex\<close> of the missing state file,
      "\<^verbatim>\<open>setNextAndMatch(peerId, next, match)\<close>".\<close>
  "setNextAndMatchIndex p nxt mtch r =
     r\<lparr>nextIndex := (nextIndex r)(p \<mapsto> nxt), matchIndex := (matchIndex r)(p \<mapsto> mtch)\<rparr>"

definition applyLogs :: "Raft \<Rightarrow> Raft" where
  \<comment> \<open>Modelled from the spec: \<^verbatim>\<open>applyLogs\<close> of the missing state file, "delivers every
      entry with \<open>lastApplied < id \<le> commitIndex\<close> to the sink in order, then advances
      \<open>lastApplied\<close>".\<close>
  "applyLogs r =
     r\<lparr>applyCh := applyCh r @
          filter (\<lambda>e. lastApplied r < Entry_Id e \<and> Entry_Id e \<le> commitIndex r) (logs r),
       lastApplied := (if lastApplied r < commitIndex r then commitIndex r else lastApplied r)\<rparr>"

section \<open>RPC handlers\<close>

definition applyCommand ::
  "ApplyCommandRequest \<Rightarrow> Raft \<Rightarrow> (error + ApplyCommandResponse) \<times> Raft" where
  "applyCommand req r =
     (if state r \<noteq> Leader then (Inl errNotLeader, r)
      else
        let id = fst (getLastLog r);
            newEntry = \<lparr>Entry_Id = id + 1, Entry_Term = currentTerm r, Entry_Data = acq_Data req\<rparr>;
            r1 = appendLogs [newEntry] r
        in (Inr \<lparr>acr_Entry = newEntry\<rparr>, r1))"

text \<open>
  The reconciliation loop of \<^verbatim>\<open>appendEntries\<close> (B.3): it walks the request's entries
  with their index \<open>i\<close> and leaves at the first one that the log lacks or holds with
  another term; only in the second case it deletes. \<open>startIndex\<close> is what the loop
  leaves in the variable of that name.
\<close>

fun reconcile :: "Entry list \<Rightarrow> nat \<Rightarrow> nat \<Rightarrow> Raft \<Rightarrow> nat \<times> Raft" where
  "reconcile [] i startIndex r = (startIndex, r)"
| "reconcile (reqEntry # rest) i startIndex r =
     (case getLog (Entry_Id reqEntry) r of
        Some rEntry \<Rightarrow>
          if Entry_Term rEntry \<noteq> Entry_Term reqEntry
          then (i, deleteLogs (Entry_Id reqEntry - 1) r)
          else reconcile rest (Suc i) startIndex r
      | None \<Rightarrow> (i, r))"

definition appendNewEntries :: "AppendEntriesRequest \<Rightarrow> Raft \<Rightarrow> Raft" where
  \<comment> \<open>lines 119 to 141 of \<^verbatim>\<open>appendEntries\<close>\<close>
  "appendNewEntries req r =
     (if length (aeq_Entries req) \<noteq> 0 then
        let entries = aeq_Entries req;
            (startIndex, r1) = reconcile entries 0 (length entries - 1) r
        in appendLogs (drop startIndex entries) r1
      else r)"

definition updateCommitIndex :: "AppendEntriesRequest \<Rightarrow> Raft \<Rightarrow> Raft" where
  \<comment> \<open>lines 148 to 159 of \<^verbatim>\<open>appendEntries\<close> (B.5)\<close>
  "updateCommitIndex req r =
     (if aeq_LeaderCommitId req > commitIndex r then
        let leaderCommitId = aeq_LeaderCommitId req;
            lastId = fst (getLastLog r);
            r1 = (if leaderCommitId < lastId then setCommitIndex leaderCommitId r
                  else setCommitIndex lastId r)
        in applyLogs r1
      else r)"

definition adoptTerm :: "nat \<Rightarrow> AppendEntriesRequest \<Rightarrow> Raft \<Rightarrow> Raft" where
  \<comment> \<open>lines 88 to 104 of \<^verbatim>\<open>appendEntries\<close> (A.2, A.3, A.4)\<close>
  "adoptTerm now req r =
     (let r1 = r\<lparr>lastHeartbeat := now\<rparr>;
          r2 = (if aeq_Term req > currentTerm r1 then toFollower (aeq_Term req) r1 else r1)
      in if aeq_Term req \<ge> currentTerm r2 \<and> state r2 = Candidate
         then toFollower (aeq_Term req) r2 else r2)"

definition prevLogMismatch :: "AppendEntriesRequest \<Rightarrow> Raft \<Rightarrow> bool" where
  \<comment> \<open>the test of lines 106 to 117 of \<^verbatim>\<open>appendEntries\<close> (B.2)\<close>
  "prevLogMismatch req r =
     (let prevLogId = aeq_PrevLogId req; prevLogTerm = aeq_PrevLogTerm req
      in prevLogId \<noteq> 0 \<and> prevLogTerm \<noteq> 0 \<and>
         (case getLog prevLogId r of
            None \<Rightarrow> True
          | Some log \<Rightarrow> Entry_Term log \<noteq> prevLogTerm))"

definition appendEntries ::
  "nat \<Rightarrow> AppendEntriesRequest \<Rightarrow> Raft \<Rightarrow> AppendEntriesResponse \<times> Raft" where
  "appendEntries now req r =
     (if aeq_Term req < currentTerm r
      then (\<lparr>aer_Term = currentTerm r, aer_Success = False\<rparr>, r)
      else
        let r1 = adoptTerm now req r
        in if prevLogMismatch req r1
           then (\<lparr>aer_Term = currentTerm r1, aer_Success = False\<rparr>, r1)
           else
             let r2 = appendNewEntries req r1;
                 r3 = updateCommitIndex req r2
             in (\<lparr>aer_Term = currentTerm r3, aer_Success = True\<rparr>, r3))"

definition requestVote ::
  "nat \<Rightarrow> RequestVoteRequest \<Rightarrow> Raft \<Rightarrow> RequestVoteResponse \<times> Raft" where
  "requestVote now req r =
     (if rvq_Term req < currentTerm r
      then (\<lparr>rvr_Term = currentTerm r, rvr_VoteGranted = False\<rparr>, r)
      else
        let r1 = (if rvq_Term req > currentTerm r then toFollower (rvq_Term req) r else r)
        in if votedFor r1 \<noteq> 0 \<and> votedFor r1 \<noteq> rvq_CandidateId req
           then (\<lparr>rvr_Term = currentTerm r1, rvr_VoteGranted = False\<rparr>, r1)
           else
             let (localLastId, localLastTerm) = getLastLog r1;
                 candidateLastId = rvq_LastLogId req;
                 candidateLastTerm = rvq_LastLogTerm req
             in if localLastTerm > candidateLastTerm \<or>
                   (localLastTerm = candidateLastTerm \<and> localLastId > candidateLastId)
                then (\<lparr>rvr_Term = currentTerm r1, rvr_VoteGranted = False\<rparr>, r1)
                else
                  let r2 = voteFor (rvq_CandidateId req) False r1;
                      r3 = r2\<lparr>lastHeartbeat := now\<rparr>
                  in (\<lparr>rvr_Term = currentTerm r3, rvr_VoteGranted = True\<rparr>, r3))"

section \<open>Candidate\<close>

definition votesNeeded :: "Raft \<Rightarrow> int" where
  \<comment> \<open>line 293 of \<^verbatim>\<open>runCandidate\<close>: \<^verbatim>\<open>(len(r.peers)+1)/2 + 1\<close>\<close>
  "votesNeeded r = (int (length (peers r)) + 1) div 2 + 1"

definition voteForSelf :: "int \<Rightarrow> Raft \<Rightarrow> int \<times> Raft" where
  "voteForSelf grantedVotes r = (grantedVotes + 1, voteFor (self_id r) True r)"

definition handleVoteResult :: "voteResult \<Rightarrow> int \<Rightarrow> int \<Rightarrow> Raft \<Rightarrow> int \<times> Raft" where
  \<comment> \<open>\<open>grantedVotes\<close> is passed by pointer in the source: the new count is returned\<close>
  "handleVoteResult vote grantedVotes needed r =
     (let r1 = (if vote_Term vote > currentTerm r then toFollower (vote_Term vote) r else r);
          g1 = (if vote_VoteGranted vote then grantedVotes + 1 else grantedVotes)
      in if g1 \<ge> needed then (g1, toLeader r1) else (g1, r1))"

section \<open>Leader\<close>

text \<open>
  The commit loop of \<^verbatim>\<open>handleAppendEntriesResult\<close> (B.9) runs over
  \<^verbatim>\<open>getLogs(commitIndex + 1)\<close> from its last entry down to its first: \<open>commitScan\<close>
  takes that list reversed.
\<close>

definition replicasOf :: "u64 \<Rightarrow> Raft \<Rightarrow> int" where
  \<comment> \<open>\<^verbatim>\<open>replicas\<close> after the loop over the peers: 1 for the node itself\<close>
  "replicasOf N r = 1 + int (length (filter (\<lambda>peerId. index_of (matchIndex r) peerId \<ge> N) (peers r)))"

fun commitScan :: "int \<Rightarrow> Entry list \<Rightarrow> Raft \<Rightarrow> Raft" where
  "commitScan replicasNeeded [] r = r"
| "commitScan replicasNeeded (e # es) r =
     (let N = Entry_Id e
      in if N \<le> commitIndex r then r
         else if Entry_Term e \<noteq> currentTerm r then commitScan replicasNeeded es r
         else if replicasOf N r \<ge> replicasNeeded then applyLogs (setCommitIndex N r)
         else commitScan replicasNeeded es r)"

definition updateIndexes :: "appendEntriesResult \<Rightarrow> Raft \<Rightarrow> Raft" where
  \<comment> \<open>lines 481 to 501 of \<^verbatim>\<open>handleAppendEntriesResult\<close> (B.7, B.8)\<close>
  "updateIndexes result r =
     (let entries = aeq_Entries (result_req result);
          peerId = result_peerId result
      in if \<not> result_Success result then
           setNextAndMatchIndex peerId (index_of (nextIndex r) peerId - 1)
             (index_of (matchIndex r) peerId) r
         else if length entries \<noteq> 0 then
           setNextAndMatchIndex peerId (Entry_Id (last entries) + 1) (Entry_Id (last entries)) r
         else r)"

definition handleAppendEntriesResult :: "appendEntriesResult \<Rightarrow> Raft \<Rightarrow> Raft" where
  "handleAppendEntriesResult result r =
     (let r1 = (if result_Term result > currentTerm r
                then toFollower (result_Term result) r else r);
          r2 = updateIndexes result r1;
          replicasNeeded = (int (length (peers r2)) + 1) div 2 + 1;
          logs' = getLogs (commitIndex r2 + 1) r2
      in commitScan replicasNeeded (rev logs') r2)"

section \<open>Scenarios\<close>

text \<open>
  Concrete nodes and messages on which the theorems below are run. Node 2 of the
  cluster \<open>{1, 2, 3}\<close> starts as \<open>NewRaft 2 [1, 3] 0\<close>. The data bytes are the ASCII
  codes of \<open>a\<close>, \<open>b\<close>, \<open>c\<close>, \<open>b'\<close> and \<open>x\<close>.
\<close>

definition follower_abc :: Raft where
  "follower_abc = (NewRaft 2 [1, 3] 0)\<lparr>currentTerm := 1, logs :=
     [\<lparr>Entry_Id = 1, Entry_Term = 1, Entry_Data = [97]\<rparr>,
      \<lparr>Entry_Id = 2, Entry_Term = 1, Entry_Data = [98]\<rparr>,
      \<lparr>Entry_Id = 3, Entry_Term = 1, Entry_Data = [99]\<rparr>]\<rparr>"

definition overwrite_req :: AppendEntriesRequest where
  "overwrite_req = \<lparr>aeq_Term = 2, aeq_LeaderId = 1, aeq_PrevLogId = 1, aeq_PrevLogTerm = 1,
     aeq_Entries = [\<lparr>Entry_Id = 2, Entry_Term = 2, Entry_Data = [98, 39]\<rparr>],
     aeq_LeaderCommitId = 0\<rparr>"

definition first_entry_req :: AppendEntriesRequest where
  "first_entry_req = \<lparr>aeq_Term = 1, aeq_LeaderId = 1, aeq_PrevLogId = 0, aeq_PrevLogTerm = 0,
     aeq_Entries = [\<lparr>Entry_Id = 1, Entry_Term = 1, Entry_Data = [97]\<rparr>],
     aeq_LeaderCommitId = 0\<rparr>"

definition zero_prev_term_req :: AppendEntriesRequest where
  "zero_prev_term_req = \<lparr>aeq_Term = 1, aeq_LeaderId = 1, aeq_PrevLogId = 5, aeq_PrevLogTerm = 0,
     aeq_Entries = [\<lparr>Entry_Id = 6, Entry_Term = 1, Entry_Data = [97]\<rparr>],
     aeq_LeaderCommitId = 0\<rparr>"

definition missing_prev_req :: AppendEntriesRequest where
  "missing_prev_req = \<lparr>aeq_Term = 1, aeq_LeaderId = 1, aeq_PrevLogId = 5, aeq_PrevLogTerm = 1,
     aeq_Entries = [\<lparr>Entry_Id = 6, Entry_Term = 1, Entry_Data = [97]\<rparr>],
     aeq_LeaderCommitId = 0\<rparr>"

definition voted_node :: Raft where
  \<comment> \<open>node 2 at term 5, having voted for 3, with last log entry (10, 5)\<close>
  "voted_node = (NewRaft 2 [1, 3] 0)\<lparr>currentTerm := 5, votedFor := 3,
     logs := [\<lparr>Entry_Id = 10, Entry_Term = 5, Entry_Data = [120]\<rparr>]\<rparr>"

definition stale_vote_req :: RequestVoteRequest where
  "stale_vote_req = \<lparr>rvq_Term = 6, rvq_CandidateId = 7, rvq_LastLogId = 10, rvq_LastLogTerm = 4\<rparr>"

definition fresh_vote_req :: RequestVoteRequest where
  "fresh_vote_req = \<lparr>rvq_Term = 6, rvq_CandidateId = 7, rvq_LastLogId = 10, rvq_LastLogTerm = 5\<rparr>"

definition leader_1 :: Raft where
  \<comment> \<open>node 1, leader of term 1 with an empty log\<close>
  "leader_1 = (NewRaft 1 [2, 3] 0)\<lparr>state := Leader, currentTerm := 1, votedFor := 1\<rparr>"

definition candidate_1 :: Raft where
  \<comment> \<open>node 1 after \<^verbatim>\<open>voteForSelf\<close> in term 1\<close>
  "candidate_1 = (NewRaft 1 [2, 3] 0)\<lparr>state := Candidate, currentTerm := 1, votedFor := 1\<rparr>"

definition newer_grant :: voteResult where
  "newer_grant = \<lparr>vote_Term = 2, vote_VoteGranted = True, vote_peerId = 2\<rparr>"

definition leader_indexed :: Raft where
  \<comment> \<open>node 1, leader of term 1: entry 1 is on both peers and committed\<close>
  "leader_indexed = (NewRaft 1 [2, 3] 0)\<lparr>state := Leader, currentTerm := 1, votedFor := 1,
     logs := [\<lparr>Entry_Id = 1, Entry_Term = 1, Entry_Data = [97]\<rparr>], commitIndex := 1,
     nextIndex := [2 \<mapsto> 2, 3 \<mapsto> 2], matchIndex := [2 \<mapsto> 1, 3 \<mapsto> 1]\<rparr>"

definition heartbeat_1 :: AppendEntriesRequest where
  "heartbeat_1 = \<lparr>aeq_Term = 1, aeq_LeaderId = 1, aeq_PrevLogId = 0, aeq_PrevLogTerm = 0,
     aeq_Entries = [], aeq_LeaderCommitId = 1\<rparr>"

definition newer_failure :: appendEntriesResult where
  \<comment> \<open>peer 2 refuses at term 2\<close>
  "newer_failure = \<lparr>result_Term = 2, result_Success = False, result_req = heartbeat_1,
     result_peerId = 2\<rparr>"

definition three_entries_req :: AppendEntriesRequest where
  "three_entries_req = \<lparr>aeq_Term = 1, aeq_LeaderId = 1, aeq_PrevLogId = 0, aeq_PrevLogTerm = 0,
     aeq_Entries = [\<lparr>Entry_Id = 1, Entry_Term = 1, Entry_Data = [97]\<rparr>,
                    \<lparr>Entry_Id = 2, Entry_Term = 1, Entry_Data = [98]\<rparr>,
                    \<lparr>Entry_Id = 3, Entry_Term = 1, Entry_Data = [99]\<rparr>],
     aeq_LeaderCommitId = 3\<rparr>"

definition committed_abc :: Raft where
  \<comment> \<open>node 2 after its first request: three entries, all committed\<close>
  "committed_abc = snd (appendEntries 1 three_entries_req (NewRaft 2 [1, 3] 0))"

definition overwrite_commit_req :: AppendEntriesRequest where
  "overwrite_commit_req = \<lparr>aeq_Term = 2, aeq_LeaderId = 3, aeq_PrevLogId = 1, aeq_PrevLogTerm = 1,
     aeq_Entries = [\<lparr>Entry_Id = 2, Entry_Term = 2, Entry_Data = [98, 39]\<rparr>],
     aeq_LeaderCommitId = 4\<rparr>"







section \<open>Commit advancement, as the specification words it\<close>



section \<open>Auxiliary facts\<close>

lemmas word_cmp = word_le_nat_alt word_less_nat_alt

lemmas handler_defs = appendEntries_def adoptTerm_def prevLogMismatch_def appendNewEntries_def
  updateCommitIndex_def getLog_def getLastLog_def deleteLogs_def appendLogs_def toFollower_def
  applyLogs_def setCommitIndex_def NewRaft_def Let_def

lemma adoptTerm_logs: "logs (adoptTerm now req r) = logs r"
  by (simp add: adoptTerm_def Let_def toFollower_def)

lemma adoptTerm_currentTerm:
  "currentTerm r \<le> aeq_Term req \<Longrightarrow> currentTerm (adoptTerm now req r) = aeq_Term req"
  by (auto simp add: adoptTerm_def Let_def toFollower_def)

lemma updateCommitIndex_frame:
  "logs (updateCommitIndex req r) = logs r \<and>
   currentTerm (updateCommitIndex req r) = currentTerm r"
  by (simp add: updateCommitIndex_def Let_def applyLogs_def setCommitIndex_def)

lemma commitScan_frame:
  "state (commitScan n es r) = state r \<and> currentTerm (commitScan n es r) = currentTerm r \<and>
   votedFor (commitScan n es r) = votedFor r \<and> logs (commitScan n es r) = logs r \<and>
   nextIndex (commitScan n es r) = nextIndex r \<and> matchIndex (commitScan n es r) = matchIndex r \<and>
   peers (commitScan n es r) = peers r"
  by (induction es) (simp_all add: Let_def applyLogs_def setCommitIndex_def)

lemma commitScan_mono: "commitIndex r \<le> commitIndex (commitScan n es r)"
  by (induction es) (auto simp add: Let_def applyLogs_def setCommitIndex_def)

lemma commitScan_no_term:
  "\<forall>e\<in>set es. Entry_Term e \<noteq> currentTerm r \<Longrightarrow> commitScan n es r = r"
  by (induction es) (simp_all add: Let_def)

lemma updateIndexes_frame:
  "state (updateIndexes result r) = state r \<and>
   currentTerm (updateIndexes result r) = currentTerm r \<and>
   logs (updateIndexes result r) = logs r \<and>
   commitIndex (updateIndexes result r) = commitIndex r \<and>
   peers (updateIndexes result r) = peers r"
  by (simp add: updateIndexes_def Let_def setNextAndMatchIndex_def)

lemma reconcile_commitIndex: "commitIndex (snd (reconcile es i s r)) = commitIndex r"
  by (induction es arbitrary: i) (simp_all add: deleteLogs_def split: option.splits)

lemma appendNewEntries_commitIndex: "commitIndex (appendNewEntries req r) = commitIndex r"
  using reconcile_commitIndex [of "aeq_Entries req" 0 "length (aeq_Entries req) - 1" r]
  by (auto simp add: appendNewEntries_def Let_def appendLogs_def split: prod.splits)

lemma adoptTerm_commitIndex: "commitIndex (adoptTerm now req r) = commitIndex r"
  by (simp add: adoptTerm_def Let_def toFollower_def)






section \<open>AppendEntries on the receiver\<close>

text \<open>
  C1. Handling the same AppendEntries request twice should give the same log as handling
  it once: when every entry of the request is already in the log with the same term, the
  handler should append nothing. The loop of \<open>reconcile\<close> then never leaves early, so
  \<open>startIndex\<close> keeps its initial value \<open>length entries - 1\<close> and the last entry of
  the request is appended once more. Node 2 with an empty log receives the entry
  \<open>(1, 1, a)\<close> twice: after the first request its log is \<open>[(1,1,a)]\<close>, after the second
  it is \<open>[(1,1,a), (1,1,a)]\<close>.
\<close>

theorem appendEntries_twice_appends_again:
  "logs (snd (appendEntries 1 first_entry_req (NewRaft 2 [1, 3] 0))) =
     [\<lparr>Entry_Id = 1, Entry_Term = 1, Entry_Data = [97]\<rparr>] \<and>
   logs (snd (appendEntries 2 first_entry_req
               (snd (appendEntries 1 first_entry_req (NewRaft 2 [1, 3] 0))))) =
     [\<lparr>Entry_Id = 1, Entry_Term = 1, Entry_Data = [97]\<rparr>,
      \<lparr>Entry_Id = 1, Entry_Term = 1, Entry_Data = [97]\<rparr>]"
  by (simp add: first_entry_req_def handler_defs word_cmp)

text \<open>
  The previous-entry test is guarded by \<open>prevLogId \<noteq> 0 \<and> prevLogTerm \<noteq> 0\<close>. A request
  with \<open>prevLogId = 5\<close> and \<open>prevLogTerm = 0\<close> to a node with an empty log is therefore
  not rejected: the reply is a success and the entry of the request is appended.
\<close>

theorem prev_check_skipped_counterexample:
  "currentTerm (NewRaft 2 [1, 3] 0) \<le> aeq_Term zero_prev_term_req \<and>
   aeq_PrevLogId zero_prev_term_req \<noteq> 0 \<and>
   getLog (aeq_PrevLogId zero_prev_term_req) (NewRaft 2 [1, 3] 0) = None \<and>
   aer_Success (fst (appendEntries 1 zero_prev_term_req (NewRaft 2 [1, 3] 0))) \<and>
   logs (snd (appendEntries 1 zero_prev_term_req (NewRaft 2 [1, 3] 0))) \<noteq>
     logs (NewRaft 2 [1, 3] 0)"
  by (simp add: zero_prev_term_req_def handler_defs word_cmp)

text \<open>
  C5, amended. For every AppendEntries request with \<open>req.term \<ge> currentTerm\<close>,
  \<open>req.prevLogId \<noteq> 0\<close> and \<open>req.prevLogTerm \<noteq> 0\<close>: if the log of the receiver has no
  entry with id \<open>prevLogId\<close>, or that entry's term differs from \<open>req.prevLogTerm\<close>, the
  handler replies \<open>{term: currentTerm, success: false}\<close>, where \<open>currentTerm\<close> is the
  term of the node when it replies (the term of the request), and leaves the log
  unchanged.
\<close>

theorem prev_log_mismatch_rejected:
  assumes "currentTerm r \<le> aeq_Term req"
    and "aeq_PrevLogId req \<noteq> 0" and "aeq_PrevLogTerm req \<noteq> 0"
    and "getLog (aeq_PrevLogId req) r = None \<or>
         (\<exists>e. getLog (aeq_PrevLogId req) r = Some e \<and> Entry_Term e \<noteq> aeq_PrevLogTerm req)"
  shows "fst (appendEntries now req r) =
           \<lparr>aer_Term = currentTerm (snd (appendEntries now req r)), aer_Success = False\<rparr> \<and>
         currentTerm (snd (appendEntries now req r)) = aeq_Term req \<and>
         logs (snd (appendEntries now req r)) = logs r"
proof -
  let ?r1 = "adoptTerm now req r"
  have "getLog (aeq_PrevLogId req) ?r1 = getLog (aeq_PrevLogId req) r"
    by (simp add: getLog_def adoptTerm_logs)
  with assms have "prevLogMismatch req ?r1"
    by (auto simp add: prevLogMismatch_def Let_def)
  moreover have "\<not> aeq_Term req < currentTerm r"
    using assms(1) by simp
  ultimately show ?thesis
    using adoptTerm_logs [of now req r] adoptTerm_currentTerm [OF assms(1), of now]
    by (simp add: appendEntries_def Let_def)
qed

theorem prev_log_mismatch_rejected_witness:
  "currentTerm (NewRaft 2 [1, 3] 0) \<le> aeq_Term missing_prev_req \<and>
   aeq_PrevLogId missing_prev_req \<noteq> 0 \<and> aeq_PrevLogTerm missing_prev_req \<noteq> 0 \<and>
   getLog (aeq_PrevLogId missing_prev_req) (NewRaft 2 [1, 3] 0) = None \<and>
   fst (appendEntries 1 missing_prev_req (NewRaft 2 [1, 3] 0)) =
     \<lparr>aer_Term = 1, aer_Success = False\<rparr> \<and>
   logs (snd (appendEntries 1 missing_prev_req (NewRaft 2 [1, 3] 0))) = []"
proof -
  have h1: "currentTerm (NewRaft 2 [1, 3] 0) \<le> aeq_Term missing_prev_req"
    by (simp add: NewRaft_def missing_prev_req_def)
  have h2: "aeq_PrevLogId missing_prev_req \<noteq> 0" and h3: "aeq_PrevLogTerm missing_prev_req \<noteq> 0"
    by (simp_all add: missing_prev_req_def)
  have h4: "getLog (aeq_PrevLogId missing_prev_req) (NewRaft 2 [1, 3] 0) = None"
    by (simp add: getLog_def NewRaft_def)
  have h5: "getLog (aeq_PrevLogId missing_prev_req) (NewRaft 2 [1, 3] 0) = None \<or>
         (\<exists>e. getLog (aeq_PrevLogId missing_prev_req) (NewRaft 2 [1, 3] 0) = Some e \<and>
              Entry_Term e \<noteq> aeq_PrevLogTerm missing_prev_req)"
    using h4 by simp
  have t: "aeq_Term missing_prev_req = 1" by (simp add: missing_prev_req_def)
  have l: "logs (NewRaft 2 [1, 3] 0) = []" by (simp add: NewRaft_def)
  show ?thesis
    using h1 h2 h3 h4 t l prev_log_mismatch_rejected [OF h1 h2 h3 h5, of 1] by simp
qed

text \<open>
  C6. A node with log \<open>[(1,1,a), (2,1,b), (3,1,c)]\<close> and a term of at most 2 receives
  an AppendEntries request of term 2 with \<open>prevLogId = 1\<close>, \<open>prevLogTerm = 1\<close> and the
  single entry \<open>(2,2,b')\<close>. The handler finds the conflict at id 2, removes the entries
  with id at least 2 (the log left by the reconciliation loop is \<open>[(1,1,a)]\<close>), appends
  \<open>(2,2,b')\<close> and replies with success at term 2; the log is then
  \<open>[(1,1,a), (2,2,b')]\<close>.
\<close>

theorem conflicting_suffix_overwrite:
  assumes "logs r = [\<lparr>Entry_Id = 1, Entry_Term = 1, Entry_Data = a\<rparr>,
                     \<lparr>Entry_Id = 2, Entry_Term = 1, Entry_Data = b\<rparr>,
                     \<lparr>Entry_Id = 3, Entry_Term = 1, Entry_Data = c\<rparr>]"
    and "currentTerm r \<le> 2"
    and "aeq_Term req = 2" and "aeq_PrevLogId req = 1" and "aeq_PrevLogTerm req = 1"
    and "aeq_Entries req = [\<lparr>Entry_Id = 2, Entry_Term = 2, Entry_Data = b'\<rparr>]"
  shows "fst (appendEntries now req r) = \<lparr>aer_Term = 2, aer_Success = True\<rparr> \<and>
         logs (snd (reconcile (aeq_Entries req) 0 0 (adoptTerm now req r))) =
           [\<lparr>Entry_Id = 1, Entry_Term = 1, Entry_Data = a\<rparr>] \<and>
         logs (snd (appendEntries now req r)) =
           [\<lparr>Entry_Id = 1, Entry_Term = 1, Entry_Data = a\<rparr>,
            \<lparr>Entry_Id = 2, Entry_Term = 2, Entry_Data = b'\<rparr>]"
proof -
  let ?r1 = "adoptTerm now req r"
  have nl: "\<not> aeq_Term req < currentTerm r"
    using assms(2,3) by simp
  have t1: "currentTerm ?r1 = 2"
    using adoptTerm_currentTerm [of r req now] assms(2,3) by simp
  have pm: "\<not> prevLogMismatch req ?r1"
    using assms by (simp add: prevLogMismatch_def Let_def getLog_def adoptTerm_logs)
  have rc: "reconcile (aeq_Entries req) 0 0 ?r1 = (0, deleteLogs 1 ?r1)"
    using assms by (simp add: getLog_def adoptTerm_logs)
  have dl: "logs (deleteLogs 1 ?r1) = [\<lparr>Entry_Id = 1, Entry_Term = 1, Entry_Data = a\<rparr>]"
    using assms(1) by (simp add: deleteLogs_def adoptTerm_logs word_cmp)
  have an: "logs (appendNewEntries req ?r1) =
              [\<lparr>Entry_Id = 1, Entry_Term = 1, Entry_Data = a\<rparr>,
               \<lparr>Entry_Id = 2, Entry_Term = 2, Entry_Data = b'\<rparr>]"
    using rc dl assms(6) by (simp add: appendNewEntries_def appendLogs_def)
  have ct: "currentTerm (appendNewEntries req ?r1) = 2"
    using rc t1 assms(6) by (simp add: appendNewEntries_def appendLogs_def deleteLogs_def)
  show ?thesis
    using nl pm rc dl an ct updateCommitIndex_frame [of req "appendNewEntries req ?r1"]
    by (simp add: appendEntries_def Let_def)
qed

theorem conflicting_suffix_overwrite_witness:
  "logs follower_abc = [\<lparr>Entry_Id = 1, Entry_Term = 1, Entry_Data = [97]\<rparr>,
                        \<lparr>Entry_Id = 2, Entry_Term = 1, Entry_Data = [98]\<rparr>,
                        \<lparr>Entry_Id = 3, Entry_Term = 1, Entry_Data = [99]\<rparr>] \<and>
   currentTerm follower_abc \<le> 2 \<and>
   fst (appendEntries 7 overwrite_req follower_abc) = \<lparr>aer_Term = 2, aer_Success = True\<rparr> \<and>
   logs (snd (appendEntries 7 overwrite_req follower_abc)) =
     [\<lparr>Entry_Id = 1, Entry_Term = 1, Entry_Data = [97]\<rparr>,
      \<lparr>Entry_Id = 2, Entry_Term = 2, Entry_Data = [98, 39]\<rparr>]"
proof -
  have h1: "logs follower_abc = [\<lparr>Entry_Id = 1, Entry_Term = 1, Entry_Data = [97]\<rparr>,
                        \<lparr>Entry_Id = 2, Entry_Term = 1, Entry_Data = [98]\<rparr>,
                        \<lparr>Entry_Id = 3, Entry_Term = 1, Entry_Data = [99]\<rparr>]"
    by (simp add: follower_abc_def)
  have h2: "currentTerm follower_abc \<le> 2"
    by (simp add: follower_abc_def word_cmp)
  have h3: "aeq_Term overwrite_req = 2" "aeq_PrevLogId overwrite_req = 1"
    "aeq_PrevLogTerm overwrite_req = 1"
    "aeq_Entries overwrite_req = [\<lparr>Entry_Id = 2, Entry_Term = 2, Entry_Data = [98, 39]\<rparr>]"
    by (simp_all add: overwrite_req_def)
  show ?thesis
    using h1 h2 conflicting_suffix_overwrite [OF h1 h2 h3, of 7] by simp
qed

section \<open>RequestVote on the receiver\<close>

text \<open>
  A request of a newer term resets \<open>votedFor\<close> before the vote is decided. Node 2 at
  term 5 has voted for 3 and its last entry is \<open>(10, 5)\<close>; the candidate 7 asks at term 6
  with the last entry \<open>(10, 4)\<close>. The vote is refused, and \<open>votedFor\<close> is 0 afterwards,
  not 3.
\<close>

theorem stale_candidate_clears_vote_counterexample:
  "\<not> rvr_VoteGranted (fst (requestVote 1 stale_vote_req voted_node)) \<and>
   votedFor (snd (requestVote 1 stale_vote_req voted_node)) \<noteq> votedFor voted_node"
  by (simp add: requestVote_def stale_vote_req_def voted_node_def NewRaft_def toFollower_def
      getLastLog_def Let_def word_cmp)

text \<open>
  C7, amended. Let \<open>v1\<close> be \<open>votedFor\<close> after the term adoption: 0 when
  \<open>req.term > currentTerm\<close>, the old \<open>votedFor\<close> otherwise. \<^verbatim>\<open>requestVote\<close> grants the
  vote exactly when \<open>req.term\<close> is not below \<open>currentTerm\<close>, \<open>v1\<close> is 0 or
  \<open>req.candidateId\<close>, and the candidate's log is at least as up-to-date as the
  receiver's (\<open>req.lastLogTerm > lastTerm\<close>, or \<open>req.lastLogTerm = lastTerm\<close> and
  \<open>req.lastLogId \<ge> lastId\<close>). A granted vote sets \<open>votedFor = req.candidateId\<close>; in
  every other case the reply is \<open>voteGranted: false\<close> and \<open>votedFor\<close> is \<open>v1\<close>. The
  term of the reply is always the term of the node after the call.
\<close>

theorem requestVote_grant_rule:
  "let cand = rvq_CandidateId req;
       v1 = (if currentTerm r < rvq_Term req then 0 else votedFor r);
       lastId = fst (getLastLog r); lastTerm = snd (getLastLog r);
       upToDate = (lastTerm < rvq_LastLogTerm req \<or>
                   (rvq_LastLogTerm req = lastTerm \<and> lastId \<le> rvq_LastLogId req));
       grant = (currentTerm r \<le> rvq_Term req \<and> (v1 = 0 \<or> v1 = cand) \<and> upToDate);
       resp = fst (requestVote now req r); r' = snd (requestVote now req r)
   in rvr_VoteGranted resp = grant \<and> rvr_Term resp = currentTerm r' \<and>
      votedFor r' = (if grant then cand else v1) \<and>
      currentTerm r' = (if currentTerm r < rvq_Term req then rvq_Term req else currentTerm r)"
proof -
  obtain lastId lastTerm where gl: "getLastLog r = (lastId, lastTerm)"
    by (cases "getLastLog r")
  have gl1: "getLastLog (toFollower t r) = (lastId, lastTerm)" for t
  proof -
    have "getLastLog (toFollower t r) = getLastLog r"
      by (simp add: getLastLog_def toFollower_def)
    with gl show ?thesis by simp
  qed
  have tf: "votedFor (toFollower t r) = 0" "currentTerm (toFollower t r) = t" for t
    by (simp_all add: toFollower_def)
  have up: "(\<not> (rvq_LastLogTerm req < lastTerm \<or>
                (lastTerm = rvq_LastLogTerm req \<and> rvq_LastLogId req < lastId))) =
            (lastTerm < rvq_LastLogTerm req \<or>
                   (rvq_LastLogTerm req = lastTerm \<and> lastId \<le> rvq_LastLogId req))"
    by auto
  consider (stale) "rvq_Term req < currentTerm r"
    | (newer) "currentTerm r < rvq_Term req"
    | (same) "currentTerm r = rvq_Term req"
    by fastforce
  then show ?thesis
  proof cases
    case stale
    then have "\<not> currentTerm r \<le> rvq_Term req" "\<not> currentTerm r < rvq_Term req" by auto
    with stale show ?thesis by (simp add: requestVote_def Let_def)
  next
    case newer
    then have "\<not> rvq_Term req < currentTerm r" "currentTerm r \<le> rvq_Term req" by auto
    with newer up show ?thesis
      by (auto simp add: requestVote_def Let_def gl gl1 tf voteFor_def)
  next
    case same
    with up show ?thesis
      by (auto simp add: requestVote_def Let_def gl voteFor_def)
  qed
qed

theorem requestVote_grant_rule_witness:
  "fst (requestVote 1 fresh_vote_req voted_node) = \<lparr>rvr_Term = 6, rvr_VoteGranted = True\<rparr> \<and>
   votedFor (snd (requestVote 1 fresh_vote_req voted_node)) = 7 \<and>
   fst (requestVote 1 stale_vote_req voted_node) = \<lparr>rvr_Term = 6, rvr_VoteGranted = False\<rparr> \<and>
   votedFor (snd (requestVote 1 stale_vote_req voted_node)) = 0"
  using requestVote_grant_rule [of fresh_vote_req voted_node 1]
        requestVote_grant_rule [of stale_vote_req voted_node 1]
  by (simp add: Let_def fresh_vote_req_def stale_vote_req_def voted_node_def NewRaft_def
      getLastLog_def word_cmp)

section \<open>ApplyCommand\<close>

text \<open>
  C9. \<^verbatim>\<open>applyCommand\<close> returns the NotLeader error with the node unchanged if and only
  if the role is not Leader. Otherwise it appends exactly one entry
  \<open>{id: lastLogId + 1, term: currentTerm, data: req.data}\<close> to the log and returns that
  entry; nothing else changes, in particular not \<open>currentTerm\<close>, \<open>votedFor\<close> and
  \<open>commitIndex\<close>. The id is computed on 64 bits.
\<close>

theorem applyCommand_leader_only:
  "(applyCommand req r = (Inl errNotLeader, r) \<longleftrightarrow> state r \<noteq> Leader) \<and>
   (state r = Leader \<longrightarrow>
     (let e = \<lparr>Entry_Id = fst (getLastLog r) + 1, Entry_Term = currentTerm r,
               Entry_Data = acq_Data req\<rparr>;
          r' = snd (applyCommand req r)
      in fst (applyCommand req r) = Inr \<lparr>acr_Entry = e\<rparr> \<and> r' = r\<lparr>logs := logs r @ [e]\<rparr> \<and>
         currentTerm r' = currentTerm r \<and> votedFor r' = votedFor r \<and>
         commitIndex r' = commitIndex r))"
  by (simp add: applyCommand_def appendLogs_def Let_def)

theorem applyCommand_leader_only_witness:
  "state leader_1 = Leader \<and>
   fst (applyCommand \<lparr>acq_Data = [120]\<rparr> leader_1) =
     Inr \<lparr>acr_Entry = \<lparr>Entry_Id = 1, Entry_Term = 1, Entry_Data = [120]\<rparr>\<rparr> \<and>
   logs (snd (applyCommand \<lparr>acq_Data = [120]\<rparr> leader_1)) =
     [\<lparr>Entry_Id = 1, Entry_Term = 1, Entry_Data = [120]\<rparr>] \<and>
   state (NewRaft 2 [1, 3] 0) \<noteq> Leader \<and>
   applyCommand \<lparr>acq_Data = [120]\<rparr> (NewRaft 2 [1, 3] 0) = (Inl errNotLeader, NewRaft 2 [1, 3] 0)"
proof -
  have h: "state leader_1 = Leader" by (simp add: leader_1_def)
  have g: "state (NewRaft 2 [1, 3] 0) \<noteq> Leader" by (simp add: NewRaft_def)
  have v: "getLastLog leader_1 = (0, 0)" "currentTerm leader_1 = 1" "logs leader_1 = []"
    by (simp_all add: leader_1_def getLastLog_def NewRaft_def)
  show ?thesis
    using h g v applyCommand_leader_only [of "\<lparr>acq_Data = [120]\<rparr>" leader_1]
      applyCommand_leader_only [of "\<lparr>acq_Data = [120]\<rparr>" "NewRaft 2 [1, 3] 0"]
    by (simp add: Let_def)
qed

section \<open>Votes\<close>

text \<open>
  With two peers the cluster has \<open>N = 3\<close> nodes: \<^verbatim>\<open>runCandidate\<close> needs 2 votes, while
  \<open>\<lfloor>(N + 1) / 2\<rfloor> + 1\<close> is 3.
\<close>

theorem votesNeeded_formula_counterexample:
  "votesNeeded (NewRaft 1 [2, 3] 0) \<noteq>
     ((int (length (peers (NewRaft 1 [2, 3] 0))) + 1) + 1) div 2 + 1"
  by (simp add: votesNeeded_def NewRaft_def)

text \<open>
  C2, amended. In \<^verbatim>\<open>runCandidate\<close> the number of granted votes required to become
  Leader is \<open>\<lfloor>N / 2\<rfloor> + 1\<close> where \<open>N = len(peers) + 1\<close> is the size of the cluster:
  the strict majority, that is the least count whose double exceeds \<open>N\<close>, for every
  number of peers.
\<close>

theorem votesNeeded_majority:
  "votesNeeded r = (int (length (peers r)) + 1) div 2 + 1 \<and>
   int (length (peers r)) + 1 < 2 * votesNeeded r \<and>
   2 * (votesNeeded r - 1) \<le> int (length (peers r)) + 1"
  unfolding votesNeeded_def by presburger

text \<open>
  C10. A RequestVote response that carries a term above \<open>currentTerm\<close> and
  \<open>voteGranted = true\<close> makes \<^verbatim>\<open>handleVoteResult\<close> step down to Follower at that term
  and still count the grant; when the count reaches \<open>votesNeeded\<close>, \<^verbatim>\<open>toLeader\<close> is
  called on the node that has just stepped down, which leaves the call as Leader of the
  higher term.
\<close>

theorem higher_term_grant_counted:
  assumes "currentTerm r < vote_Term vote" and "vote_VoteGranted vote"
  shows "handleVoteResult vote grantedVotes needed r =
           (grantedVotes + 1,
            if needed \<le> grantedVotes + 1 then toLeader (toFollower (vote_Term vote) r)
            else toFollower (vote_Term vote) r) \<and>
         (needed \<le> grantedVotes + 1 \<longrightarrow>
            state (snd (handleVoteResult vote grantedVotes needed r)) = Leader \<and>
            currentTerm (snd (handleVoteResult vote grantedVotes needed r)) = vote_Term vote)"
  using assms by (simp add: handleVoteResult_def Let_def toLeader_def toFollower_def)

theorem higher_term_grant_counted_witness:
  "currentTerm candidate_1 < vote_Term newer_grant \<and> vote_VoteGranted newer_grant \<and>
   votesNeeded candidate_1 \<le> 1 + 1 \<and>
   fst (handleVoteResult newer_grant 1 (votesNeeded candidate_1) candidate_1) = 2 \<and>
   state (snd (handleVoteResult newer_grant 1 (votesNeeded candidate_1) candidate_1)) = Leader \<and>
   currentTerm (snd (handleVoteResult newer_grant 1 (votesNeeded candidate_1) candidate_1)) = 2"
proof -
  have h1: "currentTerm candidate_1 < vote_Term newer_grant"
    by (simp add: candidate_1_def newer_grant_def NewRaft_def word_cmp)
  have h2: "vote_VoteGranted newer_grant" by (simp add: newer_grant_def)
  have h3: "votesNeeded candidate_1 \<le> 1 + 1"
    by (simp add: votesNeeded_def candidate_1_def NewRaft_def)
  have t: "vote_Term newer_grant = 2" by (simp add: newer_grant_def)
  show ?thesis
    using h1 h2 h3 t
      higher_term_grant_counted [OF h1 h2, of 1 "votesNeeded candidate_1"]
    by (simp add: toLeader_def toFollower_def)
qed

section \<open>AppendEntries responses on the leader\<close>

text \<open>
  \<^verbatim>\<open>handleAppendEntriesResult\<close> does not return after \<^verbatim>\<open>toFollower\<close>. The leader of
  term 1 holds \<open>nextIndex[2] = 2\<close>; peer 2 answers with term 2 and no success. The node
  steps down and still decrements: \<open>nextIndex[2]\<close> is 1 afterwards.
\<close>

theorem result_processed_after_step_down_counterexample:
  "currentTerm leader_indexed < result_Term newer_failure \<and>
   index_of (nextIndex (handleAppendEntriesResult newer_failure leader_indexed)) 2 \<noteq>
     index_of (nextIndex leader_indexed) 2"
  by (simp add: handleAppendEntriesResult_def updateIndexes_def leader_indexed_def
      newer_failure_def NewRaft_def toFollower_def setNextAndMatchIndex_def getLogs_def
      index_of_def Let_def word_cmp)

text \<open>
  C3, amended. For every AppendEntries response with \<open>response.term > currentTerm\<close>,
  \<^verbatim>\<open>handleAppendEntriesResult\<close> steps down to Follower at that term and goes on with
  the response. The \<open>nextIndex\<close> and \<open>matchIndex\<close> of every peer other than the
  responding one are unchanged. For the responding peer, a response without success
  decrements \<open>nextIndex\<close> by 1 (on 64 bits) and keeps \<open>matchIndex\<close>; a success that
  carried entries sets \<open>nextIndex\<close> and \<open>matchIndex\<close> from the last entry sent; a
  success without entries keeps both. \<open>commitIndex\<close> is unchanged whenever no entry of
  the log has a term above the \<open>currentTerm\<close> the node had before the call.
\<close>

theorem higher_term_result_steps_down:
  assumes "currentTerm r < result_Term result"
  shows "let r' = handleAppendEntriesResult result r;
             p = result_peerId result;
             entries = aeq_Entries (result_req result)
         in state r' = Follower \<and> currentTerm r' = result_Term result \<and>
            (\<forall>q. q \<noteq> p \<longrightarrow> nextIndex r' q = nextIndex r q \<and> matchIndex r' q = matchIndex r q) \<and>
            index_of (nextIndex r') p =
              (if \<not> result_Success result then index_of (nextIndex r) p - 1
               else if entries \<noteq> [] then Entry_Id (last entries) + 1
               else index_of (nextIndex r) p) \<and>
            index_of (matchIndex r') p =
              (if result_Success result \<and> entries \<noteq> [] then Entry_Id (last entries)
               else index_of (matchIndex r) p) \<and>
            ((\<forall>e\<in>set (logs r). Entry_Term e \<le> currentTerm r) \<longrightarrow>
               commitIndex r' = commitIndex r)"
proof -
  let ?r1 = "toFollower (result_Term result) r"
  let ?r2 = "updateIndexes result ?r1"
  let ?n = "(int (length (peers ?r2)) + 1) div 2 + 1"
  let ?es = "rev (getLogs (commitIndex ?r2 + 1) ?r2)"
  have h: "handleAppendEntriesResult result r = commitScan ?n ?es ?r2"
    using assms by (simp add: handleAppendEntriesResult_def Let_def)
  have f2: "state ?r2 = Follower" "currentTerm ?r2 = result_Term result" "logs ?r2 = logs r"
    "commitIndex ?r2 = commitIndex r"
    using updateIndexes_frame [of result ?r1] by (simp_all add: toFollower_def)
  have others: "q \<noteq> result_peerId result \<longrightarrow>
      nextIndex ?r2 q = nextIndex r q \<and> matchIndex ?r2 q = matchIndex r q" for q
    by (simp add: updateIndexes_def Let_def setNextAndMatchIndex_def toFollower_def)
  have nxt: "index_of (nextIndex ?r2) (result_peerId result) =
      (if \<not> result_Success result then index_of (nextIndex r) (result_peerId result) - 1
       else if aeq_Entries (result_req result) \<noteq> []
            then Entry_Id (last (aeq_Entries (result_req result))) + 1
       else index_of (nextIndex r) (result_peerId result))"
    by (simp add: updateIndexes_def Let_def setNextAndMatchIndex_def toFollower_def index_of_def)
  have mtch: "index_of (matchIndex ?r2) (result_peerId result) =
      (if result_Success result \<and> aeq_Entries (result_req result) \<noteq> []
       then Entry_Id (last (aeq_Entries (result_req result)))
       else index_of (matchIndex r) (result_peerId result))"
    by (simp add: updateIndexes_def Let_def setNextAndMatchIndex_def toFollower_def index_of_def)
  have commit: "commitIndex (commitScan ?n ?es ?r2) = commitIndex r"
    if old: "\<forall>e\<in>set (logs r). Entry_Term e \<le> currentTerm r"
  proof -
    have "\<forall>e\<in>set ?es. Entry_Term e \<noteq> currentTerm ?r2"
    proof
      fix e assume "e \<in> set ?es"
      then have "e \<in> set (logs r)"
        using f2(3) by (auto simp add: getLogs_def dest: set_dropWhileD)
      with old have "Entry_Term e \<le> currentTerm r" by blast
      with assms show "Entry_Term e \<noteq> currentTerm ?r2"
        using f2(2) by auto
    qed
    then have "commitScan ?n ?es ?r2 = ?r2" by (rule commitScan_no_term)
    with f2(4) show ?thesis by simp
  qed
  show ?thesis
    unfolding Let_def h
    using commitScan_frame [of ?n ?es ?r2] f2 others nxt mtch commit
    by simp
qed

theorem higher_term_result_steps_down_witness:
  "currentTerm leader_indexed < result_Term newer_failure \<and>
   state (handleAppendEntriesResult newer_failure leader_indexed) = Follower \<and>
   currentTerm (handleAppendEntriesResult newer_failure leader_indexed) = 2 \<and>
   index_of (nextIndex (handleAppendEntriesResult newer_failure leader_indexed)) 2 = 1 \<and>
   index_of (matchIndex (handleAppendEntriesResult newer_failure leader_indexed)) 2 = 1 \<and>
   nextIndex (handleAppendEntriesResult newer_failure leader_indexed) 3 = Some 2 \<and>
   commitIndex (handleAppendEntriesResult newer_failure leader_indexed) = 1"
proof -
  have h: "currentTerm leader_indexed < result_Term newer_failure"
    by (simp add: leader_indexed_def newer_failure_def NewRaft_def word_cmp)
  have old: "\<forall>e\<in>set (logs leader_indexed). Entry_Term e \<le> currentTerm leader_indexed"
    by (simp add: leader_indexed_def NewRaft_def)
  have v: "result_Term newer_failure = 2" "result_peerId newer_failure = 2"
    "\<not> result_Success newer_failure" "index_of (nextIndex leader_indexed) 2 = 2"
    "index_of (matchIndex leader_indexed) 2 = 1" "nextIndex leader_indexed 3 = Some 2"
    "commitIndex leader_indexed = 1"
    by (simp_all add: leader_indexed_def newer_failure_def NewRaft_def index_of_def)
  have "(3::u32) \<noteq> 2" by simp
  then show ?thesis
    using h old v higher_term_result_steps_down [OF h]
    by (simp add: Let_def)
qed




section \<open>The commit index across the handlers\<close>

text \<open>
  Node 2 has stored and committed the entries 1 to 3 in its first call. A request of
  term 2 that conflicts at id 2 and announces \<open>leaderCommitId = 4\<close> truncates the log to
  two entries and sets \<open>commitIndex\<close> to the last id, 2: \<open>commitIndex\<close> goes from 3
  to 2.
\<close>

theorem commit_decreases_counterexample:
  "commitIndex (snd (appendEntries 2 overwrite_commit_req committed_abc)) <
     commitIndex committed_abc"
  by (simp add: committed_abc_def three_entries_req_def overwrite_commit_req_def
      handler_defs word_cmp)

text \<open>
  C8, amended. For every state and every single invocation with arbitrary contents:
  \<^verbatim>\<open>requestVote\<close>, \<^verbatim>\<open>applyCommand\<close> and \<^verbatim>\<open>handleVoteResult\<close> leave \<open>commitIndex\<close>
  unchanged, \<^verbatim>\<open>handleAppendEntriesResult\<close> never decreases it, and \<^verbatim>\<open>appendEntries\<close>
  does not decrease it whenever the id of the last log entry after the call is at
  least the \<open>commitIndex\<close> before the call.
\<close>

theorem commitIndex_monotone_handlers:
  "commitIndex (snd (requestVote now vreq r)) = commitIndex r \<and>
   commitIndex (snd (applyCommand creq r)) = commitIndex r \<and>
   commitIndex (snd (handleVoteResult vote grantedVotes needed r)) = commitIndex r \<and>
   commitIndex r \<le> commitIndex (handleAppendEntriesResult result r) \<and>
   (commitIndex r \<le> fst (getLastLog (snd (appendEntries now req r))) \<longrightarrow>
      commitIndex r \<le> commitIndex (snd (appendEntries now req r)))"
proof -
  have rv: "commitIndex (snd (requestVote now vreq r)) = commitIndex r"
    by (simp add: requestVote_def Let_def toFollower_def voteFor_def split: prod.splits)
  have ac: "commitIndex (snd (applyCommand creq r)) = commitIndex r"
    by (simp add: applyCommand_def Let_def appendLogs_def)
  have hv: "commitIndex (snd (handleVoteResult vote grantedVotes needed r)) = commitIndex r"
    by (simp add: handleVoteResult_def Let_def toFollower_def toLeader_def)
  have ha: "commitIndex r \<le> commitIndex (handleAppendEntriesResult result r)"
  proof -
    let ?r1 = "if currentTerm r < result_Term result then toFollower (result_Term result) r else r"
    let ?r2 = "updateIndexes result ?r1"
    have "commitIndex ?r2 = commitIndex r"
      using updateIndexes_frame [of result ?r1] by (simp add: toFollower_def)
    then show ?thesis
      using commitScan_mono [of ?r2 "(int (length (peers ?r2)) + 1) div 2 + 1"
              "rev (getLogs (commitIndex ?r2 + 1) ?r2)"]
      by (simp add: handleAppendEntriesResult_def Let_def)
  qed
  have ae: "commitIndex r \<le> commitIndex (snd (appendEntries now req r))"
    if last: "commitIndex r \<le> fst (getLastLog (snd (appendEntries now req r)))"
  proof (cases "aeq_Term req < currentTerm r \<or> prevLogMismatch req (adoptTerm now req r)")
    case True
    then show ?thesis
      by (auto simp add: appendEntries_def Let_def adoptTerm_commitIndex)
  next
    case False
    let ?r2 = "appendNewEntries req (adoptTerm now req r)"
    have res: "snd (appendEntries now req r) = updateCommitIndex req ?r2"
      using False by (simp add: appendEntries_def Let_def)
    have c2: "commitIndex ?r2 = commitIndex r"
      by (simp add: appendNewEntries_commitIndex adoptTerm_commitIndex)
    have "getLastLog (updateCommitIndex req ?r2) = getLastLog ?r2"
      using updateCommitIndex_frame [of req ?r2] by (simp add: getLastLog_def)
    with last res have l2: "commitIndex r \<le> fst (getLastLog ?r2)" by simp
    show ?thesis
      unfolding res using c2 l2
      by (auto simp add: updateCommitIndex_def Let_def applyLogs_def setCommitIndex_def)
  qed
  from rv ac hv ha ae show ?thesis by blast
qed

theorem commitIndex_monotone_handlers_witness:
  "commitIndex (NewRaft 2 [1, 3] 0) \<le>
     fst (getLastLog (snd (appendEntries 1 three_entries_req (NewRaft 2 [1, 3] 0)))) \<and>
   commitIndex (NewRaft 2 [1, 3] 0) \<le>
     commitIndex (snd (appendEntries 1 three_entries_req (NewRaft 2 [1, 3] 0))) \<and>
   commitIndex (snd (appendEntries 1 three_entries_req (NewRaft 2 [1, 3] 0))) = 3"
proof -
  have h: "commitIndex (NewRaft 2 [1, 3] 0) \<le>
     fst (getLastLog (snd (appendEntries 1 three_entries_req (NewRaft 2 [1, 3] 0))))"
    by (simp add: NewRaft_def)
  have v: "commitIndex (snd (appendEntries 1 three_entries_req (NewRaft 2 [1, 3] 0))) = 3"
    by (simp add: three_entries_req_def handler_defs word_cmp)
  show ?thesis
    using h v commitIndex_monotone_handlers [of 1 _ "NewRaft 2 [1, 3] 0" _ _ _ _ _ three_entries_req]
    by simp
qed

end
